theory Spec2Isabelle
  imports Main "HOL-Library.Word"
begin

section \<open>Go values and struct fields as reflection shows them\<close>

text \<open>
  The builders of \<^verbatim>\<open>main.go\<close> receive a pointer to a struct and walk its fields with
  package \<^verbatim>\<open>reflect\<close>. A field value boxed by \<^verbatim>\<open>valField.Interface()\<close> is a
  \<open>gvalue\<close>: the constructors are the dynamic types that \<^verbatim>\<open>notDefault\<close> can tell
  apart, \<open>VNil\<close> is the nil interface (a field of interface type that holds nothing)
  and \<open>VOther\<close> is any other non-nil value. A \<^verbatim>\<open>float64\<close> is its IEEE 754 bit
  pattern.
\<close>

datatype gvalue =
    VInt32 "32 word"
  | VInt64 "64 word"
  | VFloat32 "32 word"
  | VFloat64 "64 word"
  | VBool bool
  | VString string
  | VNil
  | VOther

text \<open>
  The run-time panics of the code: \<^verbatim>\<open>Value.Interface\<close> on an unexported field, a failed
  type assertion, and the explicit \<^verbatim>\<open>panic\<close> of \<^verbatim>\<open>getDefault\<close> with its message.
\<close>

datatype panic =
    UnexportedField
  | InterfaceConversion
  | NoDefault string

text \<open>
  One struct field: \<open>Name\<close> is \<^verbatim>\<open>typeField.Name\<close>, \<open>TypeName\<close> is
  \<^verbatim>\<open>valField.Type().Name()\<close> (empty for an unnamed type such as a slice), \<open>Tag\<close> holds
  the key/value pairs of the struct tag, \<open>CanInterface\<close> is \<^verbatim>\<open>valField.CanInterface()\<close>
  (true exactly for an exported field) and \<open>Interface\<close> is the current value.
  A struct is the list of its fields in declaration order: the fields that
  \<^verbatim>\<open>NumField\<close> counts and \<^verbatim>\<open>Field(i)\<close> returns.

  An embedded field (\<^verbatim>\<open>Anonymous\<close>) is one of these fields, under the name of its type.
  When its type is a struct or a pointer to a struct, \<open>Embedded\<close> holds the fields of
  that struct as the type describes them (\<open>sfield\<close>: name, tag, and again the fields of
  an embedded struct); otherwise \<open>Embedded\<close> is \<open>None\<close>. An embedding that leads back to
  a struct type that encloses it (through a pointer) is written \<open>None\<close>: the search of
  \<^verbatim>\<open>FieldByName\<close> does not enter a type twice.
\<close>

datatype sfield =
  SField (sName: string) (sTag: "(string \<times> string) list") (sEmbedded: "sfield list option")

record field =
  Name :: string
  TypeName :: string
  Tag :: "(string \<times> string) list"
  CanInterface :: bool
  Interface :: gvalue
  Embedded :: "sfield list option"

text \<open>\<^verbatim>\<open>StructTag.Get\<close>: the value of the first pair with the key, the empty string if none.\<close>

definition Get :: "(string \<times> string) list \<Rightarrow> string \<Rightarrow> string" where
  "Get tag key = (case map_of tag key of Some v \<Rightarrow> v | None \<Rightarrow> [])"

text \<open>
  The three tags the builders read, under the names of the source's local variables:
  \<^verbatim>\<open>typeField.Tag.Get("db")\<close>, \<^verbatim>\<open>typeField.Tag.Get("primary_key") != ""\<close> and
  \<^verbatim>\<open>typeField.Tag.Get("nullable")\<close>.
\<close>

definition dbName :: "field \<Rightarrow> string" where
  "dbName f = Get (Tag f) ''db''"

definition isPrimaryKey :: "field \<Rightarrow> bool" where
  "isPrimaryKey f = (Get (Tag f) ''primary_key'' \<noteq> [])"

definition nullable :: "field \<Rightarrow> string" where
  "nullable f = Get (Tag f) ''nullable''"

text \<open>
  \<^verbatim>\<open>Type.FieldByName\<close> of package \<^verbatim>\<open>reflect\<close>. A field of the struct itself with the
  name is returned at once. Otherwise the fields promoted from embedded structs are
  searched breadth first, one depth at a time (\<open>promoted\<close>, on the list of all fields at
  one depth): no field with the name at a depth sends the search one level down, exactly
  one is the result, and several at the same depth cancel each other, so that nothing is
  found. The result is the field as the type describes it.
\<close>

definition descriptor :: "field \<Rightarrow> sfield" where
  "descriptor f = SField (Name f) (Tag f) (Embedded f)"

definition embedded_fields :: "sfield \<Rightarrow> sfield list" where
  "embedded_fields f = (case sEmbedded f of Some gs \<Rightarrow> gs | None \<Rightarrow> [])"

function promoted :: "string \<Rightarrow> sfield list \<Rightarrow> sfield option" where
  "promoted name [] = None"
| "promoted name (f # fs) =
     (case filter (\<lambda>g. sName g = name) (f # fs) of
        [] \<Rightarrow> promoted name (concat (map embedded_fields (f # fs)))
      | [g] \<Rightarrow> Some g
      | _ \<Rightarrow> None)"
  by pat_completeness auto
termination
proof (relation "measure (\<lambda>(name, level). size_list size level)")
  show "wf (measure (\<lambda>(name, level). size_list size level))" by simp
next
  fix name :: string and f :: sfield and fs :: "sfield list"
  have one: "size_list size (embedded_fields g) < size g" for g
    by (cases g) (auto simp: embedded_fields_def split: option.splits)
  have all: "size_list size (concat (map embedded_fields level)) \<le> size_list size level"
    for level
  proof (induction level)
    case Nil
    then show ?case by simp
  next
    case (Cons g gs)
    with one [of g] show ?case by (simp add: size_list_append)
  qed
  have "size_list size (concat (map embedded_fields (f # fs))) < size_list size (f # fs)"
    using one [of f] all [of fs] by (simp add: size_list_append)
  then show "((name, concat (map embedded_fields (f # fs))), (name, f # fs))
          \<in> measure (\<lambda>(name, level). size_list size level)"
    by simp
qed

definition FieldByName :: "field list \<Rightarrow> string \<Rightarrow> sfield option" where
  "FieldByName t name =
     (case find (\<lambda>f. Name f = name) t of
        Some f \<Rightarrow> Some (descriptor f)
      | None \<Rightarrow> promoted name (concat (map (embedded_fields \<circ> descriptor) t)))"

section \<open>String replacement\<close>

text \<open>
  \<^verbatim>\<open>strings.Replace(s, old, new, 1)\<close> replaces the leftmost occurrence of \<open>old\<close>;
  \<^verbatim>\<open>strings.ReplaceAll(s, old, new)\<close> replaces every non-overlapping occurrence, scanning
  from the left. With an empty \<open>old\<close> Go matches before every character and at the end
  (the builders only pass non-empty patterns).
\<close>

fun Replace1 :: "string \<Rightarrow> string \<Rightarrow> string \<Rightarrow> string" where
  "Replace1 [] old new = (if old = [] then new else [])"
| "Replace1 (c # cs) old new =
     (if take (length old) (c # cs) = old then new @ drop (length old) (c # cs)
      else c # Replace1 cs old new)"

function ReplaceAll :: "string \<Rightarrow> string \<Rightarrow> string \<Rightarrow> string" where
  "ReplaceAll [] old new = (if old = [] then new else [])"
| "ReplaceAll (c # cs) old new =
     (if old = [] then new @ c # ReplaceAll cs old new
      else if take (length old) (c # cs) = old
        then new @ ReplaceAll (drop (length old) (c # cs)) old new
      else c # ReplaceAll cs old new)"
  by pat_completeness auto
termination
  by (relation "measure (\<lambda>(s, old, new). length s)") auto

section \<open>The field introspection helpers\<close>

definition float64_zero :: "64 word \<Rightarrow> bool" where
  \<comment> \<open>\<^verbatim>\<open>x == 0\<close> on a float64: positive or negative zero.\<close>
  "float64_zero x = (x = 0 \<or> x = 0x8000000000000000)"

definition notDefault :: "string \<Rightarrow> gvalue \<Rightarrow> panic + bool" where
  "notDefault typeName fieldVal =
     (if typeName = ''int32'' then
        (case fieldVal of VInt32 n \<Rightarrow> Inr (n \<noteq> 0) | _ \<Rightarrow> Inl InterfaceConversion)
      else if typeName = ''float64'' then
        (case fieldVal of VFloat64 x \<Rightarrow> Inr (\<not> float64_zero x) | _ \<Rightarrow> Inl InterfaceConversion)
      else if typeName = ''string'' then
        (case fieldVal of VString s \<Rightarrow> Inr (s \<noteq> []) | _ \<Rightarrow> Inl InterfaceConversion)
      else Inr (fieldVal \<noteq> VNil))"

definition getDefault :: "string \<Rightarrow> panic + string" where
  "getDefault typeName =
     (if typeName \<in> set [''byte'', ''rune'', ''uint'', ''int'', ''uint8'', ''uint16'',
                         ''uint32'', ''uint64'', ''int8'', ''int16'', ''int32'', ''int64'']
        then Inr ''0''
      else if typeName \<in> set [''float32'', ''float64''] then Inr ''0.0''
      else if typeName = ''bool'' then Inr ''0''
      else if typeName = ''string'' then Inr [CHR 0x27, CHR 0x27]
      else Inl (NoDefault (''couldn't determine default value for provided type '' @ typeName)))"

section \<open>BuildUpdateQuery\<close>

text \<open>
  The loop of \<^verbatim>\<open>BuildUpdateQuery\<close> over the fields, on the pair of string builders
  \<open>(builder, predicate)\<close>. The field mask is a Go map; only the presence of a key is read.
\<close>

fun update_loop ::
  "(string \<rightharpoonup> 32 word) \<Rightarrow> field list \<Rightarrow> string \<times> string \<Rightarrow> string \<times> string" where
  "update_loop fieldMask [] (builder, predicate) = (builder, predicate)"
| "update_loop fieldMask (f # fs) (builder, predicate) =
     (if CanInterface f \<and> dbName f \<noteq> [] then
        (if isPrimaryKey f then
           update_loop fieldMask fs
             (builder, predicate @ ''WHERE '' @ dbName f @ '' = :'' @ dbName f)
         else if fieldMask (Name f) \<noteq> None then
           update_loop fieldMask fs
             (builder @ dbName f @ '' = :'' @ dbName f @ '','', predicate)
         else update_loop fieldMask fs (builder, predicate))
      else update_loop fieldMask fs (builder, predicate))"

text \<open>The text that \<^verbatim>\<open>BuildUpdateQuery\<close> passes to \<^verbatim>\<open>sqlx.Named\<close> (its local \<^verbatim>\<open>result\<close>).\<close>

definition BuildUpdateQuery_result ::
  "string \<Rightarrow> field list \<Rightarrow> (string \<rightharpoonup> 32 word) \<Rightarrow> string" where
  "BuildUpdateQuery_result target source fieldMask =
     (case update_loop fieldMask source (''UPDATE '' @ target @ '' SET '', []) of
        (builder, predicate) \<Rightarrow> Replace1 (builder @ predicate) '', WHERE'' '' WHERE'')"

text \<open>
  \<^verbatim>\<open>sqlx.Named\<close> is a library outside the repository; the builders are parameterised by
  it. Its result (text, arguments, error) is returned unchanged.
\<close>

definition BuildUpdateQuery ::
  "(string \<Rightarrow> field list \<Rightarrow> 'r) \<Rightarrow> string \<Rightarrow> field list \<Rightarrow> (string \<rightharpoonup> 32 word) \<Rightarrow> 'r" where
  "BuildUpdateQuery Named target source fieldMask =
     Named (BuildUpdateQuery_result target source fieldMask) source"

section \<open>BuildCreateQuery\<close>

text \<open>
  The loop of \<^verbatim>\<open>BuildCreateQuery\<close> with its index \<open>i\<close>, on the builders
  \<open>(cols, vals)\<close>. \<^verbatim>\<open>valField.Interface()\<close> is evaluated for every field, before any
  other test, and panics on an unexported one.
\<close>

fun create_loop :: "nat \<Rightarrow> field list \<Rightarrow> string \<times> string \<Rightarrow> panic + string \<times> string" where
  "create_loop i [] (cols, vals) = Inr (cols, vals)"
| "create_loop i (f # fs) (cols, vals) =
     (if \<not> CanInterface f then Inl UnexportedField
      else case notDefault (TypeName f) (Interface f) of
        Inl e \<Rightarrow> Inl e
      | Inr nd \<Rightarrow>
          if nd \<and> dbName f \<noteq> [] \<and> \<not> isPrimaryKey f then
            (if i \<noteq> 0 then
               create_loop (Suc i) fs
                 (cols @ '', '' @ dbName f, vals @ '', '' @ '':'' @ dbName f)
             else create_loop (Suc i) fs (cols @ dbName f, vals @ '':'' @ dbName f))
          else create_loop (Suc i) fs (cols, vals))"

definition BuildCreateQuery_result :: "string \<Rightarrow> field list \<Rightarrow> panic + string" where
  "BuildCreateQuery_result target source =
     (case create_loop 0 source (''INSERT INTO '' @ target @ '' ('', ''('') of
        Inl e \<Rightarrow> Inl e
      | Inr (cols, vals) \<Rightarrow>
          Inr (ReplaceAll (cols @ '') VALUES '' @ (vals @ '')'')) ''(, '' ''(''))"

definition BuildCreateQuery ::
  "(string \<Rightarrow> field list \<Rightarrow> 'r) \<Rightarrow> string \<Rightarrow> field list \<Rightarrow> panic + 'r" where
  "BuildCreateQuery Named target source =
     (case BuildCreateQuery_result target source of
        Inl e \<Rightarrow> Inl e
      | Inr result \<Rightarrow> Inr (Named result source))"

section \<open>BuildDeleteQuery\<close>

text \<open>The loop that looks for the primary key stops at the first tagged field.\<close>

fun delete_loop :: "field list \<Rightarrow> string \<Rightarrow> string" where
  "delete_loop [] builder = builder"
| "delete_loop (f # fs) builder =
     (if isPrimaryKey f then builder @ dbName f @ '' = :'' @ dbName f
      else delete_loop fs builder)"

definition BuildDeleteQuery_result :: "string \<Rightarrow> field list \<Rightarrow> string" where
  "BuildDeleteQuery_result target source =
     delete_loop source
       (case FieldByName source ''IsActive'' of
          Some isActive \<Rightarrow>
            ''UPDATE '' @ target @ '' SET '' @ Get (sTag isActive) ''db'' @ '' = :''
              @ Get (sTag isActive) ''db'' @ '' WHERE ''
        | None \<Rightarrow> ''DELETE FROM '' @ target @ '' WHERE '')"

definition BuildDeleteQuery ::
  "(string \<Rightarrow> field list \<Rightarrow> 'r) \<Rightarrow> string \<Rightarrow> field list \<Rightarrow> 'r" where
  "BuildDeleteQuery Named target source =
     Named (BuildDeleteQuery_result target source) source"

section \<open>BuildReadQuery\<close>

text \<open>The environment variable \<^verbatim>\<open>GRPC_SQL_DRIVER\<close> is the parameter \<open>sqlDriver\<close>.\<close>

definition nullHandler :: "string \<Rightarrow> string" where
  "nullHandler sqlDriver = (if sqlDriver = ''pgsql'' then ''coalesce('' else ''ifnull('')"

text \<open>
  One pass of the loop writes the projection item of the field to \<open>flds\<close> (the
  builder \<^verbatim>\<open>fields\<close> of the source), which may panic in \<^verbatim>\<open>getDefault\<close>, and then
  its filter to \<open>predicate\<close>.
\<close>

definition read_projection :: "string \<Rightarrow> field \<Rightarrow> string \<Rightarrow> panic + string" where
  "read_projection nh f flds =
     (if nullable f \<noteq> [] then
        (case getDefault (TypeName f) of
           Inl e \<Rightarrow> Inl e
         | Inr d \<Rightarrow> Inr (flds @ nh @ dbName f @ '', '' @ d @ '') as '' @ dbName f @ '', ''))
      else if dbName f \<noteq> [] then Inr (flds @ dbName f @ '', '')
      else Inr flds)"

fun read_loop :: "string \<Rightarrow> field list \<Rightarrow> string \<times> string \<Rightarrow> panic + string \<times> string" where
  "read_loop nh [] (flds, predicate) = Inr (flds, predicate)"
| "read_loop nh (f # fs) (flds, predicate) =
     (case read_projection nh f flds of
        Inl e \<Rightarrow> Inl e
      | Inr flds' \<Rightarrow>
          if CanInterface f then
            (case notDefault (TypeName f) (Interface f) of
               Inl e \<Rightarrow> Inl e
             | Inr nd \<Rightarrow>
                 if nd \<and> dbName f \<noteq> [] then
                   (if TypeName f = ''string'' then
                      read_loop nh fs
                        (flds', predicate @ '' AND '' @ dbName f @ '' LIKE :'' @ dbName f)
                    else
                      read_loop nh fs
                        (flds', predicate @ '' AND '' @ dbName f @ '' = :'' @ dbName f))
                 else read_loop nh fs (flds', predicate))
          else read_loop nh fs (flds', predicate))"

text \<open>The two builders \<open>(flds, predicate)\<close> when the loop has run.\<close>

definition BuildReadQuery_builders :: "string \<Rightarrow> field list \<Rightarrow> panic + string \<times> string" where
  "BuildReadQuery_builders sqlDriver source =
     read_loop (nullHandler sqlDriver) source ([], '' WHERE true'')"

definition BuildReadQuery_result :: "string \<Rightarrow> string \<Rightarrow> field list \<Rightarrow> panic + string" where
  "BuildReadQuery_result sqlDriver target source =
     (case BuildReadQuery_builders sqlDriver source of
        Inl e \<Rightarrow> Inl e
      | Inr (flds, predicate) \<Rightarrow>
          Inr (Replace1 (''SELECT '' @ flds @ ''FROM '' @ target @ predicate) '', FROM'' '' FROM''))"

definition BuildReadQuery ::
  "(string \<Rightarrow> field list \<Rightarrow> 'r) \<Rightarrow> string \<Rightarrow> string \<Rightarrow> field list \<Rightarrow> panic + 'r" where
  "BuildReadQuery Named sqlDriver target source =
     (case BuildReadQuery_result sqlDriver target source of
        Inl e \<Rightarrow> Inl e
      | Inr result \<Rightarrow> Inr (Named result source))"

section \<open>Type names, typing and example records\<close>

text \<open>
  The type names that the first two cases of \<^verbatim>\<open>getDefault\<close> list: the code's own
  grouping of the integer and the floating-point types.
\<close>

definition integer_kinds :: "string list" where
  "integer_kinds = [''byte'', ''rune'', ''uint'', ''int'', ''uint8'', ''uint16'',
                    ''uint32'', ''uint64'', ''int8'', ''int16'', ''int32'', ''int64'']"

definition float_kinds :: "string list" where
  "float_kinds = [''float32'', ''float64'']"

text \<open>
  Go's typing: a field whose type is named \<^verbatim>\<open>int32\<close>, \<^verbatim>\<open>float64\<close> or \<^verbatim>\<open>string\<close>
  boxes a value of that type, so the type assertions of \<^verbatim>\<open>notDefault\<close> succeed.
\<close>

definition well_typed :: "field \<Rightarrow> bool" where
  "well_typed f =
     (if TypeName f = ''int32'' then (case Interface f of VInt32 _ \<Rightarrow> True | _ \<Rightarrow> False)
      else if TypeName f = ''float64'' then (case Interface f of VFloat64 _ \<Rightarrow> True | _ \<Rightarrow> False)
      else if TypeName f = ''string'' then (case Interface f of VString _ \<Rightarrow> True | _ \<Rightarrow> False)
      else True)"

text \<open>
  Fields of example records. The first four follow \<^verbatim>\<open>TestStruct\<close> of the test file;
  the others are Go fields the test file does not have: a second key, an
  \<^verbatim>\<open>IsActive\<close> without tags, a nullable field without a column, unexported fields,
  and a nullable field of a struct type.
\<close>

definition ex_ID :: field where
  "ex_ID = \<lparr>Name = ''ID'', TypeName = ''int32'',
     Tag = [(''db'', ''id''), (''primary_key'', ''y'')],
     CanInterface = True, Interface = VInt32 1, Embedded = None\<rparr>"

definition ex_Name :: field where
  "ex_Name = \<lparr>Name = ''Name'', TypeName = ''string'',
     Tag = [(''db'', ''name''), (''nullable'', ''y'')],
     CanInterface = True, Interface = VString ''bob'', Embedded = None\<rparr>"

definition ex_IsActive :: field where
  "ex_IsActive = \<lparr>Name = ''IsActive'', TypeName = ''int32'',
     Tag = [(''db'', ''is_active'')],
     CanInterface = True, Interface = VInt32 0, Embedded = None\<rparr>"

definition ex_OrderBy :: field where
  "ex_OrderBy = \<lparr>Name = ''OrderBy'', TypeName = ''string'', Tag = [],
     CanInterface = True, Interface = VString ''id'', Embedded = None\<rparr>"

definition ex_Tenant :: field where
  "ex_Tenant = \<lparr>Name = ''Tenant'', TypeName = ''int32'',
     Tag = [(''db'', ''tenant_id''), (''primary_key'', ''y'')],
     CanInterface = True, Interface = VInt32 7, Embedded = None\<rparr>"

definition ex_IsActive_untagged :: field where
  "ex_IsActive_untagged = \<lparr>Name = ''IsActive'', TypeName = ''int32'', Tag = [],
     CanInterface = True, Interface = VInt32 0, Embedded = None\<rparr>"

definition ex_Note :: field where
  "ex_Note = \<lparr>Name = ''Note'', TypeName = ''string'', Tag = [(''nullable'', ''y'')],
     CanInterface = True, Interface = VString [], Embedded = None\<rparr>"

definition ex_secret :: field where
  "ex_secret = \<lparr>Name = ''secret'', TypeName = ''string'', Tag = [(''db'', ''secret'')],
     CanInterface = False, Interface = VString ''x'', Embedded = None\<rparr>"

definition ex_id_unexported :: field where
  "ex_id_unexported = \<lparr>Name = ''id'', TypeName = ''int32'',
     Tag = [(''db'', ''id''), (''primary_key'', ''y'')],
     CanInterface = False, Interface = VInt32 1, Embedded = None\<rparr>"

definition ex_sizeCache :: field where
  "ex_sizeCache = \<lparr>Name = ''sizeCache'', TypeName = ''int32'', Tag = [],
     CanInterface = False, Interface = VInt32 0, Embedded = None\<rparr>"

definition ex_Stamp :: field where
  "ex_Stamp = \<lparr>Name = ''Stamp'', TypeName = ''Timestamp'',
     Tag = [(''db'', ''stamp''), (''nullable'', ''y'')],
     CanInterface = True, Interface = VOther, Embedded = None\<rparr>"

text \<open>
  Two embedded structs, \<^verbatim>\<open>Base\<close> and \<^verbatim>\<open>Audit\<close>, each with a field \<^verbatim>\<open>IsActive\<close> of its own.
\<close>

definition ex_Base :: field where
  "ex_Base = \<lparr>Name = ''Base'', TypeName = ''Base'', Tag = [],
     CanInterface = True, Interface = VOther,
     Embedded = Some [SField ''IsActive'' [(''db'', ''is_active'')] None]\<rparr>"

definition ex_Audit :: field where
  "ex_Audit = \<lparr>Name = ''Audit'', TypeName = ''Audit'', Tag = [],
     CanInterface = True, Interface = VOther,
     Embedded = Some [SField ''By'' [(''db'', ''audit_by'')] None,
                      SField ''IsActive'' [(''db'', ''audited'')] None]\<rparr>"

section \<open>Loops in closed form\<close>

lemmas tag_simps = dbName_def isPrimaryKey_def nullable_def Get_def

lemmas ex_simps = ex_ID_def ex_Name_def ex_IsActive_def ex_OrderBy_def ex_Tenant_def
  ex_IsActive_untagged_def ex_Note_def ex_secret_def ex_id_unexported_def ex_sizeCache_def
  ex_Stamp_def ex_Base_def ex_Audit_def

lemmas lookup_simps = FieldByName_def descriptor_def embedded_fields_def

lemma well_typed_notDefault:
  "well_typed f \<Longrightarrow> \<exists>b. notDefault (TypeName f) (Interface f) = Inr b"
  by (auto simp: well_typed_def notDefault_def split: if_splits gvalue.splits)

text \<open>A pattern whose first character does not occur in the text is not replaced.\<close>

lemma Replace1_absent:
  "old \<noteq> [] \<Longrightarrow> hd old \<notin> set s \<Longrightarrow> Replace1 s old new = s"
proof (induction s)
  case Nil
  then show ?case by simp
next
  case (Cons c cs)
  have "take (length old) (c # cs) \<noteq> old"
  proof
    assume h: "take (length old) (c # cs) = old"
    from Cons.prems(1) obtain a as where old: "old = a # as" by (cases old) auto
    with h have "a = c" by simp
    with old Cons.prems(2) show False by simp
  qed
  with Cons show ?case by simp
qed

text \<open>
  The update loop appends one SET term per exported, column-carrying, non-key field of the
  mask, and one \<^verbatim>\<open>WHERE\<close> term per exported, column-carrying key field.
\<close>

lemma update_loop_closed:
  "update_loop fieldMask fs (builder, predicate) =
     (builder @ concat (map (\<lambda>f. dbName f @ '' = :'' @ dbName f @ '','')
        (filter (\<lambda>f. CanInterface f \<and> dbName f \<noteq> [] \<and> \<not> isPrimaryKey f
                      \<and> Name f \<in> dom fieldMask) fs)),
      predicate @ concat (map (\<lambda>f. ''WHERE '' @ dbName f @ '' = :'' @ dbName f)
        (filter (\<lambda>f. CanInterface f \<and> dbName f \<noteq> [] \<and> isPrimaryKey f) fs)))"
  by (induction fs arbitrary: builder predicate) (auto simp: dom_def)

text \<open>
  The clean-up of \<^verbatim>\<open>BuildUpdateQuery\<close> looks for a comma followed by a blank. It skips a
  prefix without comma, and a comma that no blank follows.
\<close>

lemma Replace1_skip:
  "old \<noteq> [] \<Longrightarrow> hd old \<notin> set a \<Longrightarrow> Replace1 (a @ s) old new = a @ Replace1 s old new"
proof (induction a)
  case Nil
  then show ?case by simp
next
  case (Cons c cs)
  have "take (length old) (c # cs @ s) \<noteq> old"
  proof
    assume h: "take (length old) (c # cs @ s) = old"
    from Cons.prems(1) obtain x xs where old: "old = x # xs" by (cases old) auto
    with h have "x = c" by simp
    with old Cons.prems(2) show False by simp
  qed
  with Cons show ?case by simp
qed

lemma Replace1_comma:
  "s = [] \<or> hd s \<noteq> CHR '' '' \<Longrightarrow>
     Replace1 (CHR '','' # s) '', WHERE'' new = CHR '','' # Replace1 s '', WHERE'' new"
  by (cases s) auto

lemma Replace1_set_terms:
  assumes "\<forall>f\<in>set fs. dbName f \<noteq> [] \<and> CHR '','' \<notin> set (dbName f)
                      \<and> CHR '' '' \<notin> set (dbName f)"
    and "t = [] \<or> hd t \<noteq> CHR '' ''" and "Replace1 t '', WHERE'' new = t"
  shows "Replace1 (concat (map (\<lambda>f. dbName f @ '' = :'' @ dbName f @ '','') fs) @ t)
           '', WHERE'' new
       = concat (map (\<lambda>f. dbName f @ '' = :'' @ dbName f @ '','') fs) @ t
     \<and> (concat (map (\<lambda>f. dbName f @ '' = :'' @ dbName f @ '','') fs) @ t = []
         \<or> hd (concat (map (\<lambda>f. dbName f @ '' = :'' @ dbName f @ '','') fs) @ t) \<noteq> CHR '' '')"
  using assms(1)
proof (induction fs)
  case Nil
  then show ?case using assms(2,3) by simp
next
  case (Cons g fs)
  let ?rest = "concat (map (\<lambda>f. dbName f @ '' = :'' @ dbName f @ '','') fs) @ t"
  from Cons have IH: "Replace1 ?rest '', WHERE'' new = ?rest"
    and hd: "?rest = [] \<or> hd ?rest \<noteq> CHR '' ''" by simp_all
  from Cons.prems have g: "dbName g \<noteq> []" "CHR '','' \<notin> set (dbName g)"
    "CHR '' '' \<notin> set (dbName g)"
    by simp_all
  have nc: "hd '', WHERE'' \<notin> set (dbName g @ '' = :'' @ dbName g)" using g by simp
  have "Replace1 ((dbName g @ '' = :'' @ dbName g) @ CHR '','' # ?rest) '', WHERE'' new
      = (dbName g @ '' = :'' @ dbName g) @ CHR '','' # ?rest"
    using Replace1_skip [OF _ nc, of "CHR '','' # ?rest" new] Replace1_comma [OF hd, of new] IH
    by simp
  moreover have "hd (dbName g @ x) \<noteq> CHR '' ''" for x
    using g by (cases "dbName g") auto
  ultimately show ?case by simp
qed

text \<open>
  With a table name without comma and column names without comma and blank, the clean-up
  of \<^verbatim>\<open>BuildUpdateQuery\<close> finds nothing to replace, whatever the record and the mask:
  the text is the one the loop built, every SET term with its comma.
\<close>

lemma update_cleanup_never_matches:
  assumes "CHR '','' \<notin> set target"
    and "\<forall>f\<in>set source. CHR '','' \<notin> set (dbName f) \<and> CHR '' '' \<notin> set (dbName f)"
  shows "BuildUpdateQuery_result target source fieldMask =
       ''UPDATE '' @ target @ '' SET ''
        @ concat (map (\<lambda>f. dbName f @ '' = :'' @ dbName f @ '','')
            (filter (\<lambda>f. CanInterface f \<and> Name f \<in> dom fieldMask \<and> dbName f \<noteq> []
                          \<and> \<not> isPrimaryKey f) source))
        @ concat (map (\<lambda>f. ''WHERE '' @ dbName f @ '' = :'' @ dbName f)
            (filter (\<lambda>f. CanInterface f \<and> dbName f \<noteq> [] \<and> isPrimaryKey f) source))"
proof -
  let ?sel = "filter (\<lambda>f. CanInterface f \<and> Name f \<in> dom fieldMask \<and> dbName f \<noteq> []
                          \<and> \<not> isPrimaryKey f) source"
  let ?keys = "filter (\<lambda>f. CanInterface f \<and> dbName f \<noteq> [] \<and> isPrimaryKey f) source"
  let ?w = "concat (map (\<lambda>f. ''WHERE '' @ dbName f @ '' = :'' @ dbName f) ?keys)"
  have a: "(\<lambda>f. CanInterface f \<and> dbName f \<noteq> [] \<and> \<not> isPrimaryKey f \<and> Name f \<in> dom fieldMask)
     = (\<lambda>f. CanInterface f \<and> Name f \<in> dom fieldMask \<and> dbName f \<noteq> [] \<and> \<not> isPrimaryKey f)"
    by auto
  have "CHR '','' \<notin> set ?w" using assms(2) by (induction source) auto
  then have w1: "Replace1 ?w '', WHERE'' '' WHERE'' = ?w"
    by (intro Replace1_absent) simp_all
  have w2: "?w = [] \<or> hd ?w \<noteq> CHR '' ''"
    by (cases ?keys) auto
  have s: "\<forall>f\<in>set ?sel. dbName f \<noteq> [] \<and> CHR '','' \<notin> set (dbName f)
                        \<and> CHR '' '' \<notin> set (dbName f)"
    using assms(2) by auto
  note t = Replace1_set_terms [OF s w2 w1, THEN conjunct1]
  have p: "hd '', WHERE'' \<notin> set (''UPDATE '' @ target @ '' SET '')" using assms(1) by simp
  have "Replace1 ((''UPDATE '' @ target @ '' SET '')
          @ (concat (map (\<lambda>f. dbName f @ '' = :'' @ dbName f @ '','') ?sel) @ ?w))
          '', WHERE'' '' WHERE''
        = (''UPDATE '' @ target @ '' SET '')
          @ (concat (map (\<lambda>f. dbName f @ '' = :'' @ dbName f @ '','') ?sel) @ ?w)"
    using Replace1_skip [OF _ p] t by simp
  then show ?thesis
    unfolding BuildUpdateQuery_result_def update_loop_closed a by simp
qed

text \<open>The delete loop writes the clause of the first key-tagged field, if there is one.\<close>

lemma delete_loop_find:
  "delete_loop fs builder =
     builder @ (case find isPrimaryKey fs of
                  Some p \<Rightarrow> dbName p @ '' = :'' @ dbName p
                | None \<Rightarrow> [])"
  by (induction fs) auto

text \<open>
  The read loop, when no nullable field has a type without default and the values are
  well typed: the projection items of all fields, and the filters of the exported fields
  with a column and a value that \<^verbatim>\<open>notDefault\<close> accepts.
\<close>

lemma read_loop_closed:
  assumes "\<forall>f\<in>set fs. (nullable f \<noteq> [] \<longrightarrow> \<not> isl (getDefault (TypeName f)))
                      \<and> (CanInterface f \<longrightarrow> well_typed f)"
  shows "read_loop nh fs (flds, predicate) =
     Inr (flds @ concat (map (\<lambda>f.
            if nullable f \<noteq> [] then
              nh @ dbName f @ '', '' @ projr (getDefault (TypeName f)) @ '') as ''
                @ dbName f @ '', ''
            else if dbName f \<noteq> [] then dbName f @ '', '' else []) fs),
          predicate @ concat (map (\<lambda>f.
            '' AND '' @ dbName f @ (if TypeName f = ''string'' then '' LIKE :'' else '' = :'')
              @ dbName f)
            (filter (\<lambda>f. CanInterface f \<and> notDefault (TypeName f) (Interface f) = Inr True
                          \<and> dbName f \<noteq> []) fs)))"
  using assms
proof (induction fs arbitrary: flds predicate)
  case Nil
  then show ?case by simp
next
  case (Cons g fs)
  from Cons.prems have g: "nullable g \<noteq> [] \<longrightarrow> \<not> isl (getDefault (TypeName g))"
    and w: "CanInterface g \<longrightarrow> well_typed g"
    and rest: "\<forall>f\<in>set fs. (nullable f \<noteq> [] \<longrightarrow> \<not> isl (getDefault (TypeName f)))
                      \<and> (CanInterface f \<longrightarrow> well_typed f)"
    by simp_all
  note IH = Cons.IH [OF rest]
  obtain p where p: "read_projection nh g flds = Inr (flds @ p)"
     and pdef: "p = (if nullable g \<noteq> [] then
              nh @ dbName g @ '', '' @ projr (getDefault (TypeName g)) @ '') as ''
                @ dbName g @ '', ''
            else if dbName g \<noteq> [] then dbName g @ '', '' else [])"
    using g by (cases "getDefault (TypeName g)") (auto simp: read_projection_def)
  show ?case
  proof (cases "CanInterface g")
    case False
    then show ?thesis using p pdef by (simp add: IH)
  next
    case True
    with w obtain b where b: "notDefault (TypeName g) (Interface g) = Inr b"
      using well_typed_notDefault by blast
    show ?thesis using True p pdef b by (simp add: IH)
  qed
qed

text \<open>One nullable field whose type has no default makes the whole loop panic.\<close>

lemma read_loop_panics:
  "f \<in> set fs \<Longrightarrow> nullable f \<noteq> [] \<Longrightarrow> isl (getDefault (TypeName f))
     \<Longrightarrow> isl (read_loop nh fs (flds, predicate))"
proof (induction fs arbitrary: flds predicate)
  case Nil
  then show ?case by simp
next
  case (Cons g fs)
  show ?case
  proof (cases "read_projection nh g flds")
    case (Inl e)
    then show ?thesis by simp
  next
    case (Inr flds')
    then have "g \<noteq> f" using Cons.prems(2,3)
      by (auto simp: read_projection_def split: sum.splits)
    with Cons.prems have "f \<in> set fs" by simp
    from Cons.IH [OF this Cons.prems(2,3)] show ?thesis using Inr
      by (simp split: sum.splits)
  qed
qed

text \<open>
  The create loop on a record whose fields are all exported: the fields that pass the
  test of the source, each with the separator its index gives it.
\<close>

lemma create_loop_closed:
  assumes "\<forall>f\<in>set fs. CanInterface f \<and> well_typed f"
  shows "create_loop i fs (cols, vals) =
     Inr (cols @ concat (map (\<lambda>(j, f). (if j \<noteq> 0 then '', '' else []) @ dbName f)
            (filter (\<lambda>(j, f). notDefault (TypeName f) (Interface f) = Inr True
                               \<and> dbName f \<noteq> [] \<and> \<not> isPrimaryKey f) (enumerate i fs))),
          vals @ concat (map (\<lambda>(j, f). (if j \<noteq> 0 then '', '' else []) @ '':'' @ dbName f)
            (filter (\<lambda>(j, f). notDefault (TypeName f) (Interface f) = Inr True
                               \<and> dbName f \<noteq> [] \<and> \<not> isPrimaryKey f) (enumerate i fs))))"
  using assms
proof (induction fs arbitrary: i cols vals)
  case Nil
  then show ?case by simp
next
  case (Cons g fs)
  from Cons.prems have "well_typed g" by simp
  then obtain b where b: "notDefault (TypeName g) (Interface g) = Inr b"
    using well_typed_notDefault by blast
  from Cons.prems have rest: "\<forall>f\<in>set fs. CanInterface f \<and> well_typed f"
    and c: "CanInterface g" by simp_all
  show ?case using b c by (simp add: Cons.IH [OF rest])
qed

section \<open>BuildUpdateQuery: the claims\<close>

text \<open>
  Claim C1. For a record with a mask-selected non-key field with a column and a key field
  with a column, the text of \<^verbatim>\<open>BuildUpdateQuery\<close> should read
  \<^verbatim>\<open>UPDATE <table> SET <set-clauses> WHERE <pk-clause>\<close> with no comma right before
  \<^verbatim>\<open>WHERE\<close>. The code writes every SET term as \<^verbatim>\<open>col = :col,\<close> with no blank after
  the comma, and then replaces the pattern \<^verbatim>\<open>", WHERE"\<close>, which has a blank: on this
  record nothing is replaced and the comma stays before \<^verbatim>\<open>WHERE\<close> (and on every
  record with plain names, by \<open>update_cleanup_never_matches\<close>).
\<close>

theorem update_trailing_comma_remains:
  "BuildUpdateQuery_result ''t'' [ex_ID, ex_Name] [''Name'' \<mapsto> 0]
     = ''UPDATE t SET name = :name,WHERE id = :id''"
  by (simp add: BuildUpdateQuery_result_def ex_simps tag_simps)

text \<open>
  Claim C3. With more than one key-tagged field, both \<^verbatim>\<open>BuildUpdateQuery\<close> and
  \<^verbatim>\<open>BuildDeleteQuery\<close> should use the first one only. The delete loop breaks at the
  first key; the update loop has no break and appends a \<^verbatim>\<open>WHERE\<close> term for every key
  field, so on a record with the keys \<^verbatim>\<open>id\<close> and \<^verbatim>\<open>tenant_id\<close> the update text has two
  \<^verbatim>\<open>WHERE\<close> terms, glued together, where the delete text has one.
\<close>

theorem update_two_keys_two_where:
  "BuildUpdateQuery_result ''t'' [ex_ID, ex_Tenant] Map.empty
     = ''UPDATE t SET WHERE id = :idWHERE tenant_id = :tenant_id''
   \<and> BuildDeleteQuery_result ''t'' [ex_ID, ex_Tenant] = ''DELETE FROM t WHERE id = :id''"
  by (simp add: BuildUpdateQuery_result_def BuildDeleteQuery_result_def lookup_simps
      ex_simps tag_simps)

text \<open>
  Claim C7, as amended. For every mask and record, the SET terms of the text are, in
  declaration order, those of the fields that are exported (\<^verbatim>\<open>CanInterface\<close>), named in
  the mask, carry a column name and are not key-tagged; the text is that list between
  \<^verbatim>\<open>UPDATE <table> SET\<close> and the \<^verbatim>\<open>WHERE\<close> terms, after the comma clean-up. The
  values of the fields do not matter: putting any other values in the record leaves the
  text unchanged. (The claim as stated leaves out the export test of the code.)
\<close>

theorem update_set_clauses_mask_gated:
  "BuildUpdateQuery_result target source fieldMask =
     Replace1
       (''UPDATE '' @ target @ '' SET ''
        @ concat (map (\<lambda>f. dbName f @ '' = :'' @ dbName f @ '','')
            (filter (\<lambda>f. CanInterface f \<and> Name f \<in> dom fieldMask \<and> dbName f \<noteq> []
                          \<and> \<not> isPrimaryKey f) source))
        @ concat (map (\<lambda>f. ''WHERE '' @ dbName f @ '' = :'' @ dbName f)
            (filter (\<lambda>f. CanInterface f \<and> dbName f \<noteq> [] \<and> isPrimaryKey f) source)))
       '', WHERE'' '' WHERE''
   \<and> BuildUpdateQuery_result target (map (\<lambda>f. f\<lparr>Interface := v f\<rparr>) source) fieldMask
       = BuildUpdateQuery_result target source fieldMask"
proof -
  have a: "(\<lambda>f. CanInterface f \<and> dbName f \<noteq> [] \<and> \<not> isPrimaryKey f \<and> Name f \<in> dom fieldMask)
     = (\<lambda>f. CanInterface f \<and> Name f \<in> dom fieldMask \<and> dbName f \<noteq> [] \<and> \<not> isPrimaryKey f)"
    by auto
  have b: "dbName (f\<lparr>Interface := x\<rparr>) = dbName f"
    "isPrimaryKey (f\<lparr>Interface := x\<rparr>) = isPrimaryKey f" for f x
    by (simp_all add: tag_simps)
  show ?thesis
    by (simp add: BuildUpdateQuery_result_def update_loop_closed a b filter_map comp_def
        map_concat)
qed

text \<open>The amended C7 on the record \<^verbatim>\<open>ID, Name, OrderBy\<close> with the mask \<^verbatim>\<open>{Name, OrderBy}\<close>.\<close>

theorem update_set_clauses_mask_gated_witness:
  "BuildUpdateQuery_result ''t'' [ex_ID, ex_Name, ex_OrderBy] [''Name'' \<mapsto> 0, ''OrderBy'' \<mapsto> 0]
     = ''UPDATE t SET name = :name,WHERE id = :id''
   \<and> BuildUpdateQuery_result ''t''
        (map (\<lambda>f. f\<lparr>Interface := VNil\<rparr>) [ex_ID, ex_Name, ex_OrderBy])
        [''Name'' \<mapsto> 0, ''OrderBy'' \<mapsto> 0]
     = ''UPDATE t SET name = :name,WHERE id = :id''"
  using update_set_clauses_mask_gated
    [of "''t''" "[ex_ID, ex_Name, ex_OrderBy]" "[''Name'' \<mapsto> 0, ''OrderBy'' \<mapsto> 0]" "\<lambda>f. VNil"]
  by (simp add: ex_simps tag_simps)

text \<open>
  Claim C7 as stated fails: the unexported field \<^verbatim>\<open>secret\<close> is named in the mask, has a
  column name and is not key-tagged, and no SET term is written for it.
\<close>

theorem update_unexported_mask_counterexample:
  "Name ex_secret \<in> dom [''secret'' \<mapsto> (0 :: 32 word)] \<and> dbName ex_secret = ''secret''
   \<and> \<not> isPrimaryKey ex_secret
   \<and> BuildUpdateQuery_result ''t'' [ex_ID, ex_secret] [''secret'' \<mapsto> 0]
       = ''UPDATE t SET WHERE id = :id''"
  by (simp add: BuildUpdateQuery_result_def ex_simps tag_simps)

text \<open>
  Claim C10, as amended. For every record whose only tagged field is an exported
  key-tagged field with a non-empty column name, for every mask, and for a table name
  and a column name without a comma, \<^verbatim>\<open>BuildUpdateQuery\<close> raises nothing and returns
  what the placeholder resolver returns on the text
  \<^verbatim>\<open>UPDATE <table> SET WHERE <pkCol> = :<pkCol>\<close>, whose SET list is empty. (The claim
  as stated does not ask for the key field to be exported.)
\<close>

theorem update_empty_set_list:
  assumes "\<forall>g\<in>set pre \<union> set post. Tag g = []"
    and "CanInterface pk" and "isPrimaryKey pk" and "dbName pk \<noteq> []"
    and "CHR '','' \<notin> set target" and "CHR '','' \<notin> set (dbName pk)"
  shows "BuildUpdateQuery Named target (pre @ pk # post) fieldMask =
           Named (''UPDATE '' @ target @ '' SET WHERE '' @ dbName pk @ '' = :'' @ dbName pk)
             (pre @ pk # post)"
proof -
  have none: "filter (\<lambda>f. CanInterface f \<and> dbName f \<noteq> [] \<and> Q f) fs = []"
    if "\<forall>g\<in>set fs. Tag g = []" for fs Q
    using that by (induction fs) (auto simp: tag_simps)
  from assms(1) have p: "\<forall>g\<in>set pre. Tag g = []" and q: "\<forall>g\<in>set post. Tag g = []"
    by auto
  have loop: "update_loop fieldMask (pre @ pk # post) (''UPDATE '' @ target @ '' SET '', [])
      = (''UPDATE '' @ target @ '' SET '', ''WHERE '' @ dbName pk @ '' = :'' @ dbName pk)"
    using assms(2-4) by (simp add: update_loop_closed none [OF p] none [OF q])
  have res: "BuildUpdateQuery_result target (pre @ pk # post) fieldMask =
      Replace1 (''UPDATE '' @ target @ '' SET WHERE '' @ dbName pk @ '' = :'' @ dbName pk)
          '', WHERE'' '' WHERE''"
    unfolding BuildUpdateQuery_result_def loop by simp
  have "Replace1 (''UPDATE '' @ target @ '' SET WHERE '' @ dbName pk @ '' = :'' @ dbName pk)
          '', WHERE'' '' WHERE''
        = ''UPDATE '' @ target @ '' SET WHERE '' @ dbName pk @ '' = :'' @ dbName pk"
    by (rule Replace1_absent) (use assms(5,6) in auto)
  with res show ?thesis
    unfolding BuildUpdateQuery_def by simp
qed

text \<open>
  The amended C10 on the record \<^verbatim>\<open>OrderBy, ID\<close>, with a mask that names no field of it
  and the resolver replaced by the function that returns the text.
\<close>

theorem update_empty_set_list_witness:
  "BuildUpdateQuery (\<lambda>result source. result) ''t'' [ex_OrderBy, ex_ID] [''Date'' \<mapsto> 0]
     = ''UPDATE t SET WHERE id = :id''"
proof -
  have h1: "\<forall>g\<in>set [ex_OrderBy] \<union> set []. Tag g = []" by (simp add: ex_simps)
  have h2: "CanInterface ex_ID" "isPrimaryKey ex_ID" "dbName ex_ID \<noteq> []"
    "CHR '','' \<notin> set ''t''" "CHR '','' \<notin> set (dbName ex_ID)"
    by (simp_all add: ex_simps tag_simps)
  have "dbName ex_ID = ''id''" by (simp add: ex_simps tag_simps)
  with update_empty_set_list [OF h1 h2, of "\<lambda>result source. result" "[''Date'' \<mapsto> 0]"]
  show ?thesis by simp
qed

text \<open>
  Claim C10 as stated fails when the key field is not exported: the field is key-tagged
  with the column \<^verbatim>\<open>id\<close>, and the text has no \<^verbatim>\<open>WHERE\<close> term at all.
\<close>

theorem update_unexported_key_counterexample:
  "isPrimaryKey ex_id_unexported \<and> dbName ex_id_unexported = ''id''
   \<and> BuildUpdateQuery_result ''t'' [ex_id_unexported] Map.empty = ''UPDATE t SET ''"
  by (simp add: BuildUpdateQuery_result_def ex_simps tag_simps)

section \<open>BuildDeleteQuery: the claims\<close>

text \<open>
  The text of \<^verbatim>\<open>BuildDeleteQuery\<close> for every record: the head is chosen by the lookup
  of \<^verbatim>\<open>IsActive\<close> alone, and the column written into the soft delete is the \<^verbatim>\<open>db\<close> tag
  of the field found, which the code does not test; the clause after \<^verbatim>\<open>WHERE\<close> is that
  of the first key-tagged field of the struct itself, and nothing when there is none.
\<close>

lemma BuildDeleteQuery_result_closed:
  "BuildDeleteQuery_result target source =
     (case FieldByName source ''IsActive'' of
        Some a \<Rightarrow> ''UPDATE '' @ target @ '' SET '' @ Get (sTag a) ''db'' @ '' = :''
                    @ Get (sTag a) ''db'' @ '' WHERE ''
      | None \<Rightarrow> ''DELETE FROM '' @ target @ '' WHERE '')
     @ (case find isPrimaryKey source of
          Some p \<Rightarrow> dbName p @ '' = :'' @ dbName p
        | None \<Rightarrow> [])"
  by (simp add: BuildDeleteQuery_result_def delete_loop_find split: option.splits)

text \<open>
  On a struct without embedded struct the lookup is that of a field of the struct itself.
\<close>

lemma FieldByName_flat:
  "\<forall>f\<in>set t. Embedded f = None \<Longrightarrow>
     FieldByName t name = map_option descriptor (find (\<lambda>f. Name f = name) t)"
proof -
  assume "\<forall>f\<in>set t. Embedded f = None"
  then have c: "concat (map (embedded_fields \<circ> descriptor) t) = []"
    by (induction t) (auto simp: embedded_fields_def descriptor_def)
  show ?thesis unfolding FieldByName_def c by (simp split: option.splits)
qed

text \<open>
  The claim holds on records with a column-carrying \<^verbatim>\<open>IsActive\<close> and on records without
  any: a field of the struct itself, a field promoted from the embedded \<^verbatim>\<open>Base\<close>, no
  such field, and two promoted fields at the same depth, which \<^verbatim>\<open>FieldByName\<close> does not
  find.
\<close>

lemma BuildDeleteQuery_result_examples:
  "BuildDeleteQuery_result ''t'' [ex_ID, ex_Name, ex_IsActive]
     = ''UPDATE t SET is_active = :is_active WHERE id = :id''
   \<and> BuildDeleteQuery_result ''t'' [ex_ID, ex_Base]
     = ''UPDATE t SET is_active = :is_active WHERE id = :id''
   \<and> BuildDeleteQuery_result ''t'' [ex_Name, ex_ID, ex_Tenant] = ''DELETE FROM t WHERE id = :id''
   \<and> BuildDeleteQuery_result ''t'' [ex_ID, ex_Base, ex_Audit] = ''DELETE FROM t WHERE id = :id''"
  by (simp add: BuildDeleteQuery_result_def lookup_simps ex_simps tag_simps)

text \<open>
  Claim C2. \<^verbatim>\<open>BuildDeleteQuery\<close> should write the soft delete only for a record with a
  field \<^verbatim>\<open>IsActive\<close> that carries a column name, and the \<^verbatim>\<open>DELETE\<close> statement for every
  other record. The code reads the \<^verbatim>\<open>db\<close> tag of the field it finds and never tests it,
  where \<^verbatim>\<open>BuildCreateQuery\<close>, \<^verbatim>\<open>BuildUpdateQuery\<close> and the bare projection of
  \<^verbatim>\<open>BuildReadQuery\<close> skip a field without column name: on a record whose \<^verbatim>\<open>IsActive\<close>
  has no tag the text is neither the \<^verbatim>\<open>DELETE\<close> statement nor a soft delete of a
  column, but an \<^verbatim>\<open>UPDATE\<close> with an empty column name and an empty placeholder.
\<close>

theorem delete_untagged_IsActive_writes_update:
  "dbName ex_IsActive_untagged = []
   \<and> BuildDeleteQuery_result ''t'' [ex_ID, ex_IsActive_untagged]
       = ''UPDATE t SET  = : WHERE id = :id''"
  by (simp add: BuildDeleteQuery_result_def lookup_simps ex_simps tag_simps)

section \<open>BuildReadQuery: the claims\<close>

text \<open>
  When no nullable-tagged field has a type without default literal (and the values are
  well typed), the projection builder of \<^verbatim>\<open>BuildReadQuery\<close> holds, field by field in
  declaration order: for a nullable-tagged field, with or without a column name,
  \<^verbatim>\<open><nullFn><col>, <default>) as <col>, \<close>; for a field that is not nullable-tagged and
  has a column name, \<^verbatim>\<open><col>, \<close>; and nothing for a field that is not nullable-tagged
  and has no column name. The text returned is
  \<^verbatim>\<open>SELECT <projection>FROM <table><predicate>\<close> after the clean-up of the last comma.
\<close>

lemma read_projection_closed:
  assumes "\<forall>f\<in>set source. (nullable f \<noteq> [] \<longrightarrow> \<not> isl (getDefault (TypeName f)))
                      \<and> (CanInterface f \<longrightarrow> well_typed f)"
  shows "\<exists>predicate.
     BuildReadQuery_builders sqlDriver source =
       Inr (concat (map (\<lambda>f.
              if nullable f \<noteq> [] then
                nullHandler sqlDriver @ dbName f @ '', '' @ projr (getDefault (TypeName f))
                  @ '') as '' @ dbName f @ '', ''
              else if dbName f \<noteq> [] then dbName f @ '', ''
              else []) source), predicate)
     \<and> BuildReadQuery_result sqlDriver target source =
       Inr (Replace1 (''SELECT '' @ concat (map (\<lambda>f.
              if nullable f \<noteq> [] then
                nullHandler sqlDriver @ dbName f @ '', '' @ projr (getDefault (TypeName f))
                  @ '') as '' @ dbName f @ '', ''
              else if dbName f \<noteq> [] then dbName f @ '', ''
              else []) source) @ ''FROM '' @ target @ predicate) '', FROM'' '' FROM'')"
  by (simp add: BuildReadQuery_result_def BuildReadQuery_builders_def
      read_loop_closed [OF assms])

text \<open>The projection of the record \<^verbatim>\<open>ID, Name, IsActive, OrderBy\<close>, for PostgreSQL.\<close>

lemma read_projection_closed_example:
  "\<exists>predicate.
     BuildReadQuery_builders ''pgsql'' [ex_ID, ex_Name, ex_IsActive, ex_OrderBy] =
       Inr (''id, coalesce(name, '' @ [CHR 0x27, CHR 0x27] @ '') as name, is_active, '', predicate)
     \<and> BuildReadQuery_result ''pgsql'' ''t'' [ex_ID, ex_Name, ex_IsActive, ex_OrderBy] =
       Inr (Replace1 (''SELECT id, coalesce(name, '' @ [CHR 0x27, CHR 0x27]
              @ '') as name, is_active, FROM t'' @ predicate) '', FROM'' '' FROM'')"
proof -
  have h: "\<forall>f\<in>set [ex_ID, ex_Name, ex_IsActive, ex_OrderBy].
      (nullable f \<noteq> [] \<longrightarrow> \<not> isl (getDefault (TypeName f)))
      \<and> (CanInterface f \<longrightarrow> well_typed f)"
    by (simp add: ex_simps tag_simps getDefault_def well_typed_def)
  show ?thesis
    using read_projection_closed [OF h, of "''pgsql''" "''t''"]
    by (simp add: ex_simps tag_simps getDefault_def nullHandler_def)
qed

text \<open>
  Claim C4. In the projection of \<^verbatim>\<open>BuildReadQuery\<close> a nullable-tagged field is wrapped
  in the null function, another field with a column name is written bare, and every
  field without a column name should be left out (the doc comment: fields must be tagged
  with \<^verbatim>\<open>db\<close> to be in the result). The loop tests the nullable tag first and the column
  name only in the else branch: the field \<^verbatim>\<open>Note\<close>, nullable-tagged and without column
  name, is not left out but written as \<^verbatim>\<open>ifnull(, '') as \<close>, with empty names.
\<close>

theorem read_nullable_without_column_emitted:
  "dbName ex_Note = [] \<and> nullable ex_Note = ''y''
   \<and> BuildReadQuery_result [] ''t'' [ex_ID, ex_Note] =
       Inr (''SELECT id, ifnull(, '' @ [CHR 0x27, CHR 0x27]
            @ '') as  FROM t WHERE true AND id = :id'')"
  by (simp add: BuildReadQuery_result_def BuildReadQuery_builders_def nullHandler_def
      read_projection_def getDefault_def notDefault_def ex_simps tag_simps)




section \<open>BuildCreateQuery: the claims\<close>

text \<open>
  On a record whose fields are all exported, the text of \<^verbatim>\<open>BuildCreateQuery\<close> lists, in
  declaration order and in the same order in the column list and in the placeholder
  list, the fields with a value that \<^verbatim>\<open>notDefault\<close> accepts, a column name and no key
  tag; a field at index 0 is written without separator, and \<^verbatim>\<open>ReplaceAll\<close> then removes
  a separator that follows an opening parenthesis.
\<close>

lemma BuildCreateQuery_result_exported:
  assumes "\<forall>f\<in>set source. CanInterface f \<and> well_typed f"
  shows "BuildCreateQuery_result target source =
     Inr (ReplaceAll
       (''INSERT INTO '' @ target @ '' (''
        @ concat (map (\<lambda>(j, f). (if j \<noteq> 0 then '', '' else []) @ dbName f)
            (filter (\<lambda>(j, f). notDefault (TypeName f) (Interface f) = Inr True
                               \<and> dbName f \<noteq> [] \<and> \<not> isPrimaryKey f) (enumerate 0 source)))
        @ '') VALUES (''
        @ concat (map (\<lambda>(j, f). (if j \<noteq> 0 then '', '' else []) @ '':'' @ dbName f)
            (filter (\<lambda>(j, f). notDefault (TypeName f) (Interface f) = Inr True
                               \<and> dbName f \<noteq> [] \<and> \<not> isPrimaryKey f) (enumerate 0 source)))
        @ '')'')
       ''(, '' ''('')"
  by (simp add: BuildCreateQuery_result_def create_loop_closed [OF assms])

text \<open>
  Claim C5. \<^verbatim>\<open>BuildCreateQuery\<close> should list every field that has a column name, is not
  key-tagged and is not at its zero value. The loop calls \<^verbatim>\<open>valField.Interface()\<close> on
  every field without asking \<^verbatim>\<open>CanInterface\<close> first, as the loops of
  \<^verbatim>\<open>BuildReadQuery\<close> and \<^verbatim>\<open>BuildUpdateQuery\<close> do: on a record with one unexported
  field, here the untagged \<^verbatim>\<open>sizeCache\<close>, the call panics and no list is built, although
  \<^verbatim>\<open>Name\<close> has a column, no key tag and a non-empty value.
\<close>

theorem create_unexported_field_panics:
  "BuildCreateQuery Named ''t'' [ex_ID, ex_Name, ex_sizeCache] = Inl UnexportedField
   \<and> BuildReadQuery_result [] ''t'' [ex_ID, ex_Name, ex_sizeCache]
       = Inr (''SELECT id, ifnull(name, '' @ [CHR 0x27, CHR 0x27]
              @ '') as name FROM t WHERE true AND id = :id AND name LIKE :name'')"
  by (simp add: BuildCreateQuery_def BuildCreateQuery_result_def BuildReadQuery_result_def
      BuildReadQuery_builders_def nullHandler_def read_projection_def getDefault_def
      notDefault_def ex_simps tag_simps)

section \<open>The introspection helpers: the claims\<close>

text \<open>
  Claim C8, as amended. \<^verbatim>\<open>notDefault\<close> goes by the name of the field's type: a value of
  type \<^verbatim>\<open>int32\<close> is non-default exactly when it is not 0, one of type \<^verbatim>\<open>float64\<close>
  exactly when it is not (positive or negative) zero, one of type \<^verbatim>\<open>string\<close> exactly
  when it is not empty; and for a type that is none of the integer, floating-point and
  string types, the value is non-default exactly when it is not the nil interface.
  (The claim as stated says that such a value is always non-default. Nothing is said
  here of the integer and floating-point types other than \<^verbatim>\<open>int32\<close> and \<^verbatim>\<open>float64\<close>.)
\<close>

theorem notDefault_by_type_name:
  "notDefault ''int32'' (VInt32 n) = Inr (n \<noteq> 0)
   \<and> notDefault ''float64'' (VFloat64 x) = Inr (\<not> float64_zero x)
   \<and> notDefault ''string'' (VString s) = Inr (s \<noteq> [])
   \<and> (typeName \<notin> set (integer_kinds @ float_kinds @ [''string''])
        \<longrightarrow> notDefault typeName v = Inr (v \<noteq> VNil))"
  by (simp add: notDefault_def integer_kinds_def float_kinds_def)

text \<open>The amended C8 on zero and non-zero values, and on a \<^verbatim>\<open>bool\<close> and a nil interface.\<close>

theorem notDefault_by_type_name_witness:
  "notDefault ''int32'' (VInt32 0) = Inr False \<and> notDefault ''int32'' (VInt32 5) = Inr True
   \<and> notDefault ''float64'' (VFloat64 0x8000000000000000) = Inr False
   \<and> notDefault ''string'' (VString []) = Inr False
   \<and> notDefault ''bool'' (VBool False) = Inr True
   \<and> notDefault ''error'' VNil = Inr False"
  using notDefault_by_type_name [of 0 "0x8000000000000000" "[]" "''bool''" "VBool False"]
    notDefault_by_type_name [of 5 0 "[]" "''error''" VNil]
  by (simp add: float64_zero_def integer_kinds_def float_kinds_def)

text \<open>
  Claim C8 as stated fails: a field of type \<^verbatim>\<open>interface{}\<close> (an unnamed type, which is
  not an integer, a floating-point or a string type) that holds nothing is classified
  as default.
\<close>

theorem notDefault_nil_counterexample:
  "[] \<notin> set (integer_kinds @ float_kinds @ [''string'']) \<and> notDefault [] VNil = Inr False"
  by (simp add: notDefault_def integer_kinds_def float_kinds_def)

text \<open>
  The integer types other than \<^verbatim>\<open>int32\<close>, and \<^verbatim>\<open>float32\<close>, which \<^verbatim>\<open>getDefault\<close> knows,
  fall into the last case of \<^verbatim>\<open>notDefault\<close>: a zero of type \<^verbatim>\<open>int64\<close> is non-default.
\<close>

lemma notDefault_int64_zero:
  "notDefault ''int64'' (VInt64 0) = Inr True \<and> notDefault ''float32'' (VFloat32 0) = Inr True"
  by (simp add: notDefault_def)

text \<open>
  Claim C9. \<^verbatim>\<open>getDefault\<close> returns \<^verbatim>\<open>0\<close> for the integer type names and for
  \<^verbatim>\<open>bool\<close>, \<^verbatim>\<open>0.0\<close> for the floating-point type names and two single quotes for
  \<^verbatim>\<open>string\<close>. For every other type name it panics with its message; it has no error
  result. The panic ends the operation: \<^verbatim>\<open>BuildReadQuery\<close> on a record with a
  nullable-tagged field of such a type returns nothing, neither a text nor an error of the
  resolver, which is never called.
\<close>

theorem getDefault_literals_or_panic:
  "(typeName \<in> set integer_kinds \<or> typeName = ''bool'' \<longrightarrow> getDefault typeName = Inr ''0'')
   \<and> (typeName \<in> set float_kinds \<longrightarrow> getDefault typeName = Inr ''0.0'')
   \<and> (typeName = ''string'' \<longrightarrow> getDefault typeName = Inr [CHR 0x27, CHR 0x27])
   \<and> (typeName \<notin> set (integer_kinds @ float_kinds @ [''bool'', ''string'']) \<longrightarrow>
        getDefault typeName
          = Inl (NoDefault (''couldn't determine default value for provided type '' @ typeName))
        \<and> (f \<in> set source \<and> nullable f \<noteq> [] \<and> TypeName f = typeName \<longrightarrow>
             isl (BuildReadQuery Named sqlDriver target source)))"
proof -
  have tbl: "typeName \<notin> set (integer_kinds @ float_kinds @ [''bool'', ''string'']) \<Longrightarrow>
        getDefault typeName
          = Inl (NoDefault (''couldn't determine default value for provided type '' @ typeName))"
    by (simp add: getDefault_def integer_kinds_def float_kinds_def)
  have ab: "isl (BuildReadQuery Named sqlDriver target source)"
    if "typeName \<notin> set (integer_kinds @ float_kinds @ [''bool'', ''string''])"
      "f \<in> set source" "nullable f \<noteq> []" "TypeName f = typeName"
  proof -
    have "isl (getDefault (TypeName f))" using tbl that by simp
    from read_loop_panics [OF that(2,3) this]
    have "isl (BuildReadQuery_builders sqlDriver source)"
      by (simp add: BuildReadQuery_builders_def)
    then show ?thesis
      by (cases "BuildReadQuery_builders sqlDriver source")
        (simp_all add: BuildReadQuery_def BuildReadQuery_result_def)
  qed
  have a1: "typeName \<in> set integer_kinds \<or> typeName = ''bool'' \<longrightarrow> getDefault typeName = Inr ''0''"
    by (auto simp: getDefault_def integer_kinds_def)
  have a2: "typeName \<in> set float_kinds \<longrightarrow> getDefault typeName = Inr ''0.0''"
    by (auto simp: getDefault_def float_kinds_def)
  have a3: "typeName = ''string'' \<longrightarrow> getDefault typeName = Inr [CHR 0x27, CHR 0x27]"
    by (simp add: getDefault_def)
  show ?thesis using a1 a2 a3 tbl ab by blast
qed

text \<open>
  C9 on \<^verbatim>\<open>int64\<close>, \<^verbatim>\<open>bool\<close>, \<^verbatim>\<open>float32\<close>, \<^verbatim>\<open>string\<close> and on the struct type
  \<^verbatim>\<open>Timestamp\<close> of the nullable field \<^verbatim>\<open>Stamp\<close>.
\<close>

theorem getDefault_literals_or_panic_witness:
  "getDefault ''int64'' = Inr ''0'' \<and> getDefault ''bool'' = Inr ''0''
   \<and> getDefault ''float32'' = Inr ''0.0''
   \<and> getDefault ''string'' = Inr [CHR 0x27, CHR 0x27]
   \<and> getDefault ''Timestamp''
       = Inl (NoDefault ''couldn't determine default value for provided type Timestamp'')
   \<and> isl (BuildReadQuery (\<lambda>result source. result) [] ''t'' [ex_ID, ex_Stamp])"
  using getDefault_literals_or_panic [where typeName = "''int64''"]
    getDefault_literals_or_panic [where typeName = "''bool''"]
    getDefault_literals_or_panic [where typeName = "''float32''"]
    getDefault_literals_or_panic [where typeName = "''string''"]
    getDefault_literals_or_panic [where typeName = "''Timestamp''" and f = ex_Stamp
      and source = "[ex_ID, ex_Stamp]" and Named = "\<lambda>result source. result"
      and sqlDriver = "[]" and target = "''t''"]
  by (simp add: integer_kinds_def float_kinds_def ex_simps tag_simps)

end
